theory Spec2Isabelle
  imports Complex_Main
begin

section \<open>JavaScript values\<close>

text \<open>
  The payloads exchanged with the backend proxy are JSON documents, and the payment code
  inspects them with truthiness tests, property reads, \<^verbatim>\<open>||\<close> and \<^verbatim>\<open>===\<close>.
  A JavaScript number is kept as the rational it denotes (every finite double is one);
  NaN and the infinities cannot occur in JSON and are not represented. Multiplication and
  division round their exact result to the nearest double (\<open>fl\<close> below).
  An object is an association list; a property read takes the first entry of a key.
\<close>

datatype jv =
    JUndef
  | JNull
  | JBool bool
  | JNum rat
  | JStr string
  | JArr "jv list"
  | JObj "(string \<times> jv) list"

fun truthy :: "jv \<Rightarrow> bool" where
  "truthy JUndef = False"
| "truthy JNull = False"
| "truthy (JBool b) = b"
| "truthy (JNum q) = (q \<noteq> 0)"
| "truthy (JStr s) = (s \<noteq> [])"
| "truthy (JArr xs) = True"
| "truthy (JObj kvs) = True"

fun nullish :: "jv \<Rightarrow> bool" where
  "nullish JUndef = True"
| "nullish JNull = True"
| "nullish v = False"

text \<open>
  \<open>jget v k\<close> is the read \<^verbatim>\<open>v.k\<close> for a receiver that is neither null nor undefined.
  None of the property names the payment code reads exists on the prototypes of strings,
  numbers, booleans or arrays, so the read gives undefined there. A read on null or
  undefined throws in JavaScript: every read of the source is guarded by a truthiness test
  of its receiver or is written with \<^verbatim>\<open>?.\<close>, except the one in the catch block of
  \<^verbatim>\<open>_cloverPay\<close>, where the throw is modelled explicitly.
\<close>

fun jget :: "jv \<Rightarrow> string \<Rightarrow> jv" where
  "jget (JObj kvs) k = (case map_of kvs k of Some v \<Rightarrow> v | None \<Rightarrow> JUndef)"
| "jget v k = JUndef"

definition opt_jget :: "jv \<Rightarrow> string \<Rightarrow> jv" where
  \<comment> \<open>\<^verbatim>\<open>v?.k\<close>\<close>
  "opt_jget v k = (if nullish v then JUndef else jget v k)"

definition js_or :: "jv \<Rightarrow> jv \<Rightarrow> jv" where
  \<comment> \<open>\<^verbatim>\<open>a || b\<close>\<close>
  "js_or a b = (if truthy a then a else b)"

subsection \<open>Double-precision arithmetic\<close>

text \<open>
  \<open>fl x\<close> is the double nearest to \<open>x\<close>: 53 significant bits, a tie goes to the even
  significand. The exponent is not bounded, so the model has neither overflow nor
  subnormal numbers. \<open>ilog2 x\<close> is the exponent \<open>e\<close> with \<open>2^e \<le> x < 2^(e+1)\<close> of a positive
  \<open>x\<close>.
\<close>

function log2i :: "int \<Rightarrow> nat" where
  "log2i n = (if n < 2 then 0 else Suc (log2i (n div 2)))"
  by pat_completeness auto
termination
  by (relation "measure nat") auto

declare log2i.simps [simp del]

definition ilog2 :: "rat \<Rightarrow> int" where
  "ilog2 x = (if 1 \<le> x then int (log2i \<lfloor>x\<rfloor>)
              else - int (Suc (log2i (\<lceil>1 / x\<rceil> - 1))))"

definition pow2 :: "int \<Rightarrow> rat" where
  "pow2 e = (if 0 \<le> e then 2 ^ nat e else 1 / 2 ^ nat (- e))"

definition round_even :: "rat \<Rightarrow> int" where
  "round_even y =
     (let f = \<lfloor>y\<rfloor>; r = y - of_int f
      in if r < 1 / 2 then f else if 1 / 2 < r then f + 1 else if even f then f else f + 1)"

definition fl :: "rat \<Rightarrow> rat" where
  "fl x = (if x = 0 then 0
           else (let u = pow2 (ilog2 \<bar>x\<bar> - 52) in of_int (round_even (x / u)) * u))"

definition js_round :: "rat \<Rightarrow> int" where
  \<comment> \<open>\<^verbatim>\<open>Math.round\<close>: to the nearest integer, a half goes up\<close>
  "js_round x = \<lfloor>x + 1 / 2\<rfloor>"

section \<open>Payment lines, the store and the payment method instance\<close>

text \<open>
  \<open>Coerced v\<close> stands for the number \<^verbatim>\<open>v / 100\<close> of a truthy terminal-reported amount
  \<open>v\<close> that is not a number: JavaScript coerces it with ToNumber, which the model leaves
  unevaluated.
\<close>

datatype clover_amt = NoAmount | Amount rat | Coerced jv

record payment_line =
  amount :: rat
  payment_status :: string
  card_type :: jv
  transaction_id :: jv
  cardholder_name :: jv
  receipt_info :: "jv option"
  clover_payment_id :: jv
  clover_order_id :: jv
  clover_result :: jv
  clover_amount :: clover_amt
  clover_auth_code :: jv
  clover_card_type :: jv
  clover_card_last_four :: jv

text \<open>A translated message: the template given to \<^verbatim>\<open>_t\<close> and its arguments.\<close>

datatype message = Message string "jv list"

text \<open>A call to the backend: the operation and payload of a proxy request, or the status query.\<close>

datatype rpc_call = ProxyRequest string jv | LatestStatus

text \<open>What the backend does with a call: it replies with a value, or the call fails.\<close>

datatype rpc = Reply jv | Fail jv

text \<open>
  How a promise returned by the payment method ends: resolved with a value, rejected with
  a thrown value or a TypeError, or parked on the promise of a waiter.
\<close>

datatype exn = Thrown jv | TypeError

datatype outcome = Resolved jv | Rejected exn | Parked nat

text \<open>
  The state the payment method reads and writes. Payment-line objects are kept in a store
  indexed by their uuid; \<open>payment_ids\<close> are the lines of the current order and \<open>selected\<close>
  its selected line. A resolver stored in \<^verbatim>\<open>paymentLineResolvers\<close> is the resolve
  function of a promise: promises are numbered in the order of their creation, and
  \<open>promises\<close> gives the value of each promise that has been resolved.
\<close>

record pos =
  lines :: "string \<Rightarrow> payment_line"
  payment_ids :: "string list"
  selected :: "string option"
  order_uuid :: string
  order_name :: string
  session_id :: string
  currency_name :: string
  paymentLineResolvers :: "string \<rightharpoonup> nat"
  promises :: "nat \<rightharpoonup> jv"
  next_promise :: nat
  terminalStatus :: string
  dialogs :: "(string \<times> message) list"
  calls :: "rpc_call list"

definition setup_clover :: "pos \<Rightarrow> pos" where
  "setup_clover s = s\<lparr>paymentLineResolvers := Map.empty, terminalStatus := ''disconnected''\<rparr>"

text \<open>
  \<^verbatim>\<open>line.setPaymentStatus\<close> and \<^verbatim>\<open>line.setReceiptInfo\<close> are setters of the
  point-of-sale framework's payment line. The receipt text is
  \<^verbatim>\<open>`Card: ****${last4}`\<close>; the model keeps the interpolated value.
\<close>

definition setPaymentStatus :: "string \<Rightarrow> string \<Rightarrow> pos \<Rightarrow> pos" where
  "setPaymentStatus u st s = s\<lparr>lines := (lines s)(u := (lines s u)\<lparr>payment_status := st\<rparr>)\<rparr>"

definition showError :: "message \<Rightarrow> pos \<Rightarrow> pos" where
  "showError m s = s\<lparr>dialogs := dialogs s @ [(''Clover Error'', m)]\<rparr>"

section \<open>The proxy client\<close>

text \<open>
  \<open>pend\<close> is what \<^verbatim>\<open>pos.getPendingPaymentLine("clover")\<close> of the framework's store
  answers when the code asks for the pending line: the uuid of a line, or nothing.
  The handler returns a rejected promise: the result is the value it is rejected with.
\<close>

definition handleOdooConnectionFailure :: "jv \<Rightarrow> string option \<Rightarrow> pos \<Rightarrow> pos \<times> jv" where
  "handleOdooConnectionFailure data pend s =
     (let data' = (if data = JUndef then JObj [] else data);
          s1 = (case pend of Some u \<Rightarrow> setPaymentStatus u ''retry'' s | None \<Rightarrow> s);
          s2 = showError (Message
                 ''Could not connect to the Odoo server. Please check your internet connection and try again.'' []) s1
      in (s2, data'))"

text \<open>
  A proxy call is sent (\<open>callClover_send\<close>), and some time later it settles
  (\<open>callClover_settle\<close>): a failure runs the catch handler. The promise of the call is
  then resolved with the reply (\<open>Inr\<close>) or rejected with the handler's value (\<open>Inl\<close>).
  An awaited call is the two in sequence; a call that is not awaited settles as an event
  of its own.
\<close>

definition callClover_send :: "jv \<Rightarrow> string \<Rightarrow> pos \<Rightarrow> pos" where
  "callClover_send data operation s = s\<lparr>calls := calls s @ [ProxyRequest operation data]\<rparr>"

definition callClover_settle :: "rpc \<Rightarrow> string option \<Rightarrow> pos \<Rightarrow> pos \<times> (jv + jv)" where
  "callClover_settle r pend s =
     (case r of
        Reply v \<Rightarrow> (s, Inr v)
      | Fail e \<Rightarrow> (fst (handleOdooConnectionFailure e pend s),
                   Inl (snd (handleOdooConnectionFailure e pend s))))"

definition callClover :: "jv \<Rightarrow> string \<Rightarrow> rpc \<Rightarrow> string option \<Rightarrow> pos \<Rightarrow> pos \<times> (jv + jv)" where
  "callClover data operation r pend s = callClover_settle r pend (callClover_send data operation s)"

section \<open>The request builder\<close>

text \<open>
  The payload of the sale request, built from the selected line of the current order.
  Without a selected line the read of its amount throws. \<open>session_id\<close> is the text the
  template string gives for the session's id.
\<close>

definition cloverPayData :: "pos \<Rightarrow> jv option" where
  "cloverPayData s =
     (case selected s of
        None \<Rightarrow> None
      | Some l \<Rightarrow> Some (JObj
          [(''amount'', JNum (of_int (js_round (fl (amount (lines s l) * 100))))),
           (''currency'', JStr (currency_name s)),
           (''externalPaymentId'', JStr (order_uuid s @ ''--'' @ session_id s)),
           (''orderId'', JStr (order_name s)),
           (''note'', JStr (''POS Order: '' @ order_name s)),
           (''autoAcceptPaymentConfirmations'', JBool True),
           (''autoAcceptSignature'', JBool True)]))"

section \<open>Responses\<close>

definition waitForPaymentConfirmation :: "string \<Rightarrow> pos \<Rightarrow> pos \<times> outcome" where
  "waitForPaymentConfirmation u s =
     (s\<lparr>paymentLineResolvers := (paymentLineResolvers s)(u \<mapsto> next_promise s),
        next_promise := Suc (next_promise s)\<rparr>,
      Parked (next_promise s))"

definition handleSuccessResponse :: "jv \<Rightarrow> string \<Rightarrow> pos \<Rightarrow> pos \<times> outcome" where
  "handleSuccessResponse response u s =
     (let payment = js_or (jget response ''payment'') response;
          line = lines s u;
          cardTx = jget payment ''cardTransaction'';
          line1 =
            (if truthy cardTx then
               (let l1 = line\<lparr>card_type := js_or (jget cardTx ''cardType'') (jget cardTx ''type''),
                              transaction_id := js_or (jget cardTx ''referenceId'') (jget payment ''id''),
                              cardholder_name := js_or (jget cardTx ''cardholderName'') (JStr [])\<rparr>
                in if truthy (jget cardTx ''last4'')
                   then l1\<lparr>receipt_info := Some (jget cardTx ''last4'')\<rparr>
                   else l1)
             else line);
          line2 = line1\<lparr>
            clover_payment_id := jget payment ''id'',
            clover_order_id := opt_jget (jget payment ''order'') ''id'',
            clover_result := js_or (jget response ''result'') (JStr ''SUCCESS''),
            clover_amount :=
              (if truthy (jget payment ''amount'')
               then (case jget payment ''amount'' of
                       JNum q \<Rightarrow> Amount (fl (q / 100))
                     | v \<Rightarrow> Coerced v)
               else Amount (amount line1)),
            clover_auth_code := opt_jget (jget payment ''cardTransaction'') ''authCode'',
            clover_card_type := opt_jget (jget payment ''cardTransaction'') ''cardType'',
            clover_card_last_four := opt_jget (jget payment ''cardTransaction'') ''last4''\<rparr>;
          s1 = s\<lparr>lines := (lines s)(u := line2)\<rparr>
      in (callClover_send (JObj []) ''thank_you'' s1, Resolved (JBool True)))"

definition cloverHandleResponse :: "jv \<Rightarrow> string \<Rightarrow> pos \<Rightarrow> pos \<times> outcome" where
  "cloverHandleResponse response u s =
     (if \<not> truthy response then
        (setPaymentStatus u ''force_done''
           (showError (Message ''No response received from Clover terminal.'' []) s),
         Resolved (JBool False))
      else if truthy (jget response ''error'') then
        (let errorMsg = js_or (jget (jget response ''error'') ''message'') (JStr ''Unknown error'');
             s1 = (if jget (jget response ''error'') ''status_code'' = JNum 401
                   then showError (Message
                          ''Authentication failed. Please check your Clover credentials.'' []) s
                   else showError (Message ''Clover error: %s'' [errorMsg]) s)
         in (setPaymentStatus u ''force_done'' s1, Resolved (JBool False)))
      else if truthy (jget response ''success'') \<or> jget response ''result'' = JStr ''SUCCESS''
              \<or> truthy (jget response ''payment'') then
        handleSuccessResponse response u s
      else if jget response ''status'' = JStr ''PENDING'' \<or> jget response ''result'' = JStr ''PENDING'' then
        waitForPaymentConfirmation u (setPaymentStatus u ''waitingCard'' s)
      else
        (let message = js_or (jget response ''message'')
                         (js_or (jget response ''reason'') (JStr ''Payment was not approved''))
         in (setPaymentStatus u ''retry'' (showError (Message ''Payment declined: %s'' [message]) s),
             Resolved (JBool False))))"

section \<open>Initiating a payment\<close>

text \<open>
  \<open>welcome\<close> and \<open>sale\<close> are what the backend does with the two proxy calls. The line is
  looked up among the lines of the current order; when none has the uuid, the read of
  its amount throws. The failure handler of a proxy call asks the store for the pending
  line at most once in a run, since a failed welcome call ends the run.
\<close>

definition cloverPay :: "string \<Rightarrow> rpc \<Rightarrow> rpc \<Rightarrow> string option \<Rightarrow> pos \<Rightarrow> pos \<times> outcome" where
  "cloverPay uuid welcome sale pend s =
     (if uuid \<notin> set (payment_ids s) then (s, Rejected TypeError)
      else if amount (lines s uuid) < 0 then
        (showError (Message ''Cannot process transactions with negative amount.'' []) s,
         Resolved (JBool False))
      else
        (case callClover (JObj []) ''welcome'' welcome pend s of
           (s1, Inl e) \<Rightarrow> (s1, Rejected (Thrown e))
         | (s1, Inr w) \<Rightarrow>
             (case cloverPayData s1 of
                None \<Rightarrow> (s1, Rejected TypeError)
              | Some data \<Rightarrow>
                  (case callClover data ''sale'' sale pend s1 of
                     (s2, Inr response) \<Rightarrow> cloverHandleResponse response uuid s2
                   | (s2, Inl error) \<Rightarrow>
                       (if nullish error then (s2, Rejected TypeError)
                        else
                          (setPaymentStatus uuid ''retry''
                             (showError (Message ''Payment request failed: %s''
                                [js_or (jget error ''message'') error]) s2),
                           Resolved (JBool False)))))))"

text \<open>
  The hooks \<^verbatim>\<open>sendPaymentRequest\<close>, \<^verbatim>\<open>sendPaymentCancel\<close> and \<^verbatim>\<open>close\<close> of the
  framework's payment interface, which the class calls first through \<^verbatim>\<open>super\<close>, are
  empty there.
\<close>

definition sendPaymentRequest :: "string \<Rightarrow> rpc \<Rightarrow> rpc \<Rightarrow> string option \<Rightarrow> pos \<Rightarrow> pos \<times> outcome" where
  "sendPaymentRequest uuid welcome sale pend s = cloverPay uuid welcome sale pend s"

section \<open>Notifications\<close>

text \<open>Calling the resolve function of a promise: a promise that is resolved already keeps its value.\<close>

definition resolver :: "nat \<Rightarrow> jv \<Rightarrow> pos \<Rightarrow> pos" where
  "resolver p v s = (if promises s p = None then s\<lparr>promises := (promises s)(p \<mapsto> v)\<rparr> else s)"

text \<open>
  \<open>r\<close> is what the backend does with the status query, which has no catch handler.
  \<open>handlePaymentResponse\<close> is the method of the framework's payment line that the code falls
  back to when no resolver is stored for the line; it is a parameter of the model.
\<close>

definition handleCloverStatusResponse ::
  "(jv \<Rightarrow> payment_line \<Rightarrow> payment_line) \<Rightarrow> rpc \<Rightarrow> string option \<Rightarrow> pos \<Rightarrow> pos \<times> outcome" where
  "handleCloverStatusResponse handlePaymentResponse r pend s =
     (let s0 = s\<lparr>calls := calls s @ [LatestStatus]\<rparr> in
      case r of
        Fail e \<Rightarrow> (s0, Rejected (Thrown e))
      | Reply notification \<Rightarrow>
          if \<not> truthy notification then
            (fst (handleOdooConnectionFailure JUndef pend s0), Resolved JUndef)
          else
            (case pend of
               None \<Rightarrow> (s0, Resolved JUndef)
             | Some u \<Rightarrow>
                 (let payment = js_or (jget notification ''payment'') notification;
                      isSuccess = js_or (JBool (jget payment ''result'' = JStr ''SUCCESS''))
                                    (jget notification ''success'');
                      s1 = (if truthy isSuccess then fst (handleSuccessResponse notification u s0)
                            else showError (Message ''Payment failed: %s''
                                   [js_or (jget payment ''failureMessage'')
                                      (js_or (jget payment ''reason'') (JStr ''Payment failed''))]) s0)
                  in case paymentLineResolvers s1 u of
                       Some p \<Rightarrow>
                         ((resolver p isSuccess s1)
                            \<lparr>paymentLineResolvers := (paymentLineResolvers s1)(u := None)\<rparr>,
                          Resolved JUndef)
                     | None \<Rightarrow>
                         (s1\<lparr>lines := (lines s1)(u := handlePaymentResponse isSuccess (lines s1 u))\<rparr>,
                          Resolved JUndef))))"

section \<open>Cancelling\<close>

definition cloverCancel :: "bool \<Rightarrow> rpc \<Rightarrow> string option \<Rightarrow> pos \<Rightarrow> pos \<times> outcome" where
  "cloverCancel ignoreError r pend s =
     (case callClover (JObj []) ''cancel'' r pend s of
        (s1, Inr response) \<Rightarrow>
          ((if \<not> ignoreError \<and> truthy (opt_jget response ''error'')
            then showError (Message
                   ''Cancelling the payment failed. Please cancel it manually on the Clover terminal.'' []) s1
            else s1),
           Resolved (JBool True))
      | (s1, Inl error) \<Rightarrow>
          ((if \<not> ignoreError
            then showError (Message
                   ''Cancelling the payment failed. Please cancel it manually on the Clover terminal.'' []) s1
            else s1),
           Resolved (JBool False)))"

definition sendPaymentCancel :: "rpc \<Rightarrow> string option \<Rightarrow> pos \<Rightarrow> pos \<times> outcome" where
  "sendPaymentCancel r pend s = cloverCancel False r pend s"

definition close_clover :: "rpc \<Rightarrow> string option \<Rightarrow> pos \<Rightarrow> pos" where
  \<comment> \<open>\<^verbatim>\<open>close\<close>: the cancel is not awaited and its result is dropped\<close>
  "close_clover r pend s = fst (cloverCancel True r pend s)"

section \<open>Outcome buckets\<close>

text \<open>
  The bucket of a payload on each delivery path, read off the branches the code takes:
  \<open>sale_bucket\<close> follows \<^verbatim>\<open>_cloverHandleResponse\<close>, \<open>notification_bucket\<close> follows
  \<^verbatim>\<open>handleCloverStatusResponse\<close>, which treats an absent notification as a failed
  connection and knows no other failure than "Payment failed".
\<close>

datatype bucket = Success | Pending | Declined | TerminalError | ConnectivityFailure

definition sale_bucket :: "jv \<Rightarrow> bucket" where
  "sale_bucket response =
     (if \<not> truthy response then TerminalError
      else if truthy (jget response ''error'') then TerminalError
      else if truthy (jget response ''success'') \<or> jget response ''result'' = JStr ''SUCCESS''
              \<or> truthy (jget response ''payment'') then Success
      else if jget response ''status'' = JStr ''PENDING'' \<or> jget response ''result'' = JStr ''PENDING''
      then Pending
      else Declined)"

definition notification_bucket :: "jv \<Rightarrow> bucket" where
  "notification_bucket notification =
     (if \<not> truthy notification then ConnectivityFailure
      else if truthy (js_or (JBool (jget (js_or (jget notification ''payment'') notification) ''result''
                                     = JStr ''SUCCESS''))
                        (jget notification ''success''))
      then Success
      else Declined)"

text \<open>
  The concrete store used in the examples: one order with the line \<open>L1\<close> of 12.50.
\<close>

definition line0 :: payment_line where
  "line0 = \<lparr>amount = 25 / 2, payment_status = ''pending'', card_type = JUndef,
      transaction_id = JUndef, cardholder_name = JUndef, receipt_info = None,
      clover_payment_id = JUndef, clover_order_id = JUndef, clover_result = JUndef,
      clover_amount = NoAmount, clover_auth_code = JUndef, clover_card_type = JUndef,
      clover_card_last_four = JUndef\<rparr>"

definition pos0 :: pos where
  "pos0 = \<lparr>lines = (\<lambda>u. line0), payment_ids = [''L1''], selected = Some ''L1'',
      order_uuid = ''o-1'', order_name = ''Order 0001'', session_id = ''7'',
      currency_name = ''USD'', paymentLineResolvers = Map.empty, promises = Map.empty,
      next_promise = 0, terminalStatus = ''disconnected'', dialogs = [], calls = []\<rparr>"

text \<open>A reply with an error of status 401 that also carries every success indicator.\<close>

definition reply_401_success :: jv where
  "reply_401_success = JObj
     [(''error'', JObj [(''status_code'', JNum 401), (''message'', JStr ''Unauthorized'')]),
      (''success'', JBool True), (''result'', JStr ''SUCCESS''),
      (''payment'', JObj [(''id'', JStr ''p1'')])]"

text \<open>The same store, with a refund line \<open>L2\<close> of -5.00 in the order.\<close>

definition pos_refund :: pos where
  "pos_refund = pos0\<lparr>lines := (lines pos0)(''L2'' := line0\<lparr>amount := - 5\<rparr>),
      payment_ids := [''L1'', ''L2'']\<rparr>"

text \<open>Successful replies: one without a terminal-reported amount, one reporting 0 minor units.\<close>

definition reply_paid :: jv where
  "reply_paid = JObj [(''success'', JBool True), (''payment'', JObj [(''id'', JStr ''p1'')])]"

definition reply_paid_zero :: jv where
  "reply_paid_zero = JObj [(''success'', JBool True),
     (''payment'', JObj [(''id'', JStr ''p1''), (''amount'', JNum 0)])]"

definition connection_message :: message where
  "connection_message = Message
     ''Could not connect to the Odoo server. Please check your internet connection and try again.'' []"

text \<open>The value of the local constant \<^verbatim>\<open>isSuccess\<close> of \<^verbatim>\<open>handleCloverStatusResponse\<close>.\<close>

definition isSuccess :: "jv \<Rightarrow> jv" where
  "isSuccess notification =
     js_or (JBool (jget (js_or (jget notification ''payment'') notification) ''result''
                     = JStr ''SUCCESS''))
       (jget notification ''success'')"

text \<open>
  The framework's \<^verbatim>\<open>handlePaymentResponse\<close>, with the effect the state machine of the
  specification gives it: the line is done on a success and can be retried otherwise.
  It serves in the examples only.
\<close>

definition framework_handlePaymentResponse :: "jv \<Rightarrow> payment_line \<Rightarrow> payment_line" where
  "framework_handlePaymentResponse v l =
     l\<lparr>payment_status := (if truthy v then ''done'' else ''retry'')\<rparr>"

text \<open>More payloads, and the store after a sale request on \<open>L1\<close> that the terminal left pending.\<close>

definition reply_pending :: jv where
  "reply_pending = JObj [(''status'', JStr ''PENDING'')]"

definition reply_payment_only :: jv where
  "reply_payment_only = JObj [(''payment'', JObj [(''id'', JStr ''p1'')])]"

definition notify_paid :: jv where
  "notify_paid = JObj [(''payment'', JObj [(''result'', JStr ''SUCCESS''), (''id'', JStr ''p1'')])]"

definition notify_failed :: jv where
  "notify_failed = JObj [(''payment'',
     JObj [(''result'', JStr ''FAIL''), (''failureMessage'', JStr ''Card declined'')])]"

definition pos_waiting :: pos where
  "pos_waiting = fst (sendPaymentRequest ''L1'' (Reply JNull) (Reply reply_pending) None pos0)"

text \<open>The store after the notification \<open>notify_failed\<close> has resolved the waiter of \<open>L1\<close>.\<close>

definition pos_resolved :: pos where
  "pos_resolved = fst (handleCloverStatusResponse framework_handlePaymentResponse
     (Reply notify_failed) (Some ''L1'') pos_waiting)"

section \<open>Runs of the payment method\<close>

text \<open>
  One step of the payment method instance: one of its entry points runs to its end, a proxy
  call that was not awaited settles, or the framework changes the lines and the order.
  An instance starts with \<^verbatim>\<open>setup\<close>, before any promise exists.
\<close>

inductive step :: "pos \<Rightarrow> pos \<Rightarrow> bool" where
  request: "step s (fst (sendPaymentRequest uuid welcome sale pend s))"
| notification: "step s (fst (handleCloverStatusResponse hp r pend s))"
| cancel: "step s (fst (sendPaymentCancel r pend s))"
| closing: "step s (close_clover r pend s)"
| settled: "step s (fst (callClover_settle r pend s))"
| store: "step s (s\<lparr>lines := l, payment_ids := ids, selected := sel\<rparr>)"

inductive reachable :: "pos \<Rightarrow> bool" where
  reach_start: "promises s = Map.empty \<Longrightarrow> next_promise s = 0 \<Longrightarrow> reachable (setup_clover s)"
| reach_step: "reachable s \<Longrightarrow> step s s' \<Longrightarrow> reachable s'"

text \<open>
  What a step does to the waiters: nothing (\<open>same_waiters\<close>), it registers a waiter with a
  new promise for a line, or it calls and deletes the resolver of a line.
\<close>

definition same_waiters :: "pos \<Rightarrow> pos \<Rightarrow> bool" where
  "same_waiters s s' =
     (paymentLineResolvers s' = paymentLineResolvers s \<and> promises s' = promises s
      \<and> next_promise s' = next_promise s)"

definition registers :: "string \<Rightarrow> pos \<Rightarrow> pos \<Rightarrow> bool" where
  "registers u s s' =
     (paymentLineResolvers s' = (paymentLineResolvers s)(u \<mapsto> next_promise s)
      \<and> promises s' = promises s \<and> next_promise s' = Suc (next_promise s))"

definition resolves :: "string \<Rightarrow> nat \<Rightarrow> jv \<Rightarrow> pos \<Rightarrow> pos \<Rightarrow> bool" where
  "resolves u p v s s' =
     (paymentLineResolvers s u = Some p
      \<and> paymentLineResolvers s' = (paymentLineResolvers s)(u := None)
      \<and> promises s' = (if promises s p = None then (promises s)(p \<mapsto> v) else promises s)
      \<and> next_promise s' = next_promise s)"

text \<open>
  The resolvers are in order: each belongs to a promise that exists and is not resolved, and
  no two lines share a promise.
\<close>

definition waiters_ok :: "pos \<Rightarrow> bool" where
  "waiters_ok s =
     ((\<forall>u p. paymentLineResolvers s u = Some p \<longrightarrow> p < next_promise s \<and> promises s p = None)
      \<and> (\<forall>u v p. paymentLineResolvers s u = Some p \<longrightarrow> paymentLineResolvers s v = Some p \<longrightarrow> u = v)
      \<and> (\<forall>p v. promises s p = Some v \<longrightarrow> p < next_promise s))"

text \<open>A promise that exists, is not resolved, and has its resolver stored nowhere.\<close>

definition orphaned :: "nat \<Rightarrow> pos \<Rightarrow> bool" where
  "orphaned p s =
     (p < next_promise s \<and> promises s p = None \<and> (\<forall>u. paymentLineResolvers s u \<noteq> Some p))"

text \<open>
  Stores whose line \<open>L1\<close> has the double of a two-decimal amount: 12.34, and
  42467729793017.09. A successful reply that reports \<open>m\<close> minor units.
\<close>

definition pos_1234 :: pos where
  "pos_1234 = pos0\<lparr>lines := (lines pos0)(''L1'' := line0\<lparr>amount := fl (1234 / 100)\<rparr>)\<rparr>"

definition pos_big :: pos where
  "pos_big = pos0\<lparr>lines := (lines pos0)(''L1'' := line0\<lparr>amount := fl (4246772979301709 / 100)\<rparr>)\<rparr>"

definition reply_amount :: "int \<Rightarrow> jv" where
  "reply_amount m = JObj [(''success'', JBool True),
     (''payment'', JObj [(''id'', JStr ''p1''), (''amount'', JNum (of_int m))])]"

text \<open>A successful reply with a card transaction, reporting 500 minor units.\<close>

definition reply_visa :: jv where
  "reply_visa = JObj [(''success'', JBool True),
     (''payment'', JObj [(''id'', JStr ''p1''), (''amount'', JNum 500),
        (''cardTransaction'', JObj [(''last4'', JStr ''4242''), (''type'', JStr ''VISA'')])])]"

text \<open>The store whose line \<open>L1\<close> has the amount 0.\<close>

definition pos_zero :: pos where
  "pos_zero = pos0\<lparr>lines := (lines pos0)(''L1'' := line0\<lparr>amount := 0\<rparr>)\<rparr>"

section \<open>Properties of the sale reply\<close>

lemma lines_setPaymentStatus:
  "lines (setPaymentStatus u st s) = (lines s)(u := (lines s u)\<lparr>payment_status := st\<rparr>)"
  by (simp add: setPaymentStatus_def)

lemma lines_showError: "lines (showError m s) = lines s"
  by (simp add: showError_def)

lemma dialogs_setPaymentStatus: "dialogs (setPaymentStatus u st s) = dialogs s"
  by (simp add: setPaymentStatus_def)

lemma dialogs_showError: "dialogs (showError m s) = dialogs s @ [(''Clover Error'', m)]"
  by (simp add: showError_def)

lemma calls_setPaymentStatus: "calls (setPaymentStatus u st s) = calls s"
  by (simp add: setPaymentStatus_def)

lemma calls_showError: "calls (showError m s) = calls s"
  by (simp add: showError_def)

lemma truthy_jget: "truthy (jget r k) \<Longrightarrow> truthy r"
  by (cases r) simp_all

text \<open>
  Claim C3, as the code has it. The empty object is truthy, so the reply \<^verbatim>\<open>{}\<close> is not
  taken as an absent reply: it has no error, no success indicator and no pending indicator,
  and falls through to the last branch. The payment is declined with the message "Payment
  was not approved" and the line is set to \<open>retry\<close>. The "no response" error with
  \<open>force_done\<close> is what an absent reply (null or undefined) gets.
\<close>

theorem empty_reply_declined:
  "cloverHandleResponse (JObj []) u s =
     (setPaymentStatus u ''retry''
        (showError (Message ''Payment declined: %s'' [JStr ''Payment was not approved'']) s),
      Resolved (JBool False))
   \<and> sale_bucket (JObj []) = Declined
   \<and> cloverHandleResponse JNull u s =
     (setPaymentStatus u ''force_done''
        (showError (Message ''No response received from Clover terminal.'' []) s),
      Resolved (JBool False))
   \<and> cloverHandleResponse JUndef u s =
     (setPaymentStatus u ''force_done''
        (showError (Message ''No response received from Clover terminal.'' []) s),
      Resolved (JBool False))
   \<and> sale_bucket JNull = TerminalError \<and> sale_bucket JUndef = TerminalError"
  by (simp add: cloverHandleResponse_def js_or_def sale_bucket_def)

text \<open>
  Claim C3 as stated fails: on the reply \<^verbatim>\<open>{}\<close> the line \<open>L1\<close> ends in \<open>retry\<close>, not in
  \<open>force_done\<close>, and the operator reads "Payment declined", not "No response".
\<close>

theorem empty_reply_counterexample:
  "sale_bucket (JObj []) = Declined \<and> sale_bucket (JObj []) \<noteq> TerminalError
   \<and> payment_status (lines (fst (cloverHandleResponse (JObj []) ''L1'' pos0)) ''L1'') = ''retry''
   \<and> payment_status (lines (fst (cloverHandleResponse (JObj []) ''L1'' pos0)) ''L1'') \<noteq> ''force_done''
   \<and> dialogs (fst (cloverHandleResponse (JObj []) ''L1'' pos0))
       = [(''Clover Error'', Message ''Payment declined: %s'' [JStr ''Payment was not approved''])]"
  by (simp add: cloverHandleResponse_def js_or_def sale_bucket_def setPaymentStatus_def
      showError_def pos0_def)

text \<open>
  Claim C8. A reply whose \<open>error\<close> field is present (truthy, as the code tests it) is a
  terminal error whatever success indicators it carries: the line is set to \<open>force_done\<close>,
  the result is \<open>false\<close>, and nothing of the success branch runs. With
  \<open>error.status_code\<close> equal to 401 the operator gets the authentication message, otherwise
  the generic one with the error's own message.
\<close>

theorem error_wins:
  assumes "truthy (jget response ''error'')"
  shows "sale_bucket response = TerminalError
    \<and> cloverHandleResponse response u s =
        (setPaymentStatus u ''force_done''
           (showError
              (if jget (jget response ''error'') ''status_code'' = JNum 401
               then Message ''Authentication failed. Please check your Clover credentials.'' []
               else Message ''Clover error: %s''
                      [js_or (jget (jget response ''error'') ''message'') (JStr ''Unknown error'')])
              s),
         Resolved (JBool False))"
  using assms truthy_jget [OF assms]
  by (simp add: cloverHandleResponse_def sale_bucket_def Let_def)

theorem error_wins_witness:
  "truthy (jget reply_401_success ''error'')
   \<and> truthy (jget reply_401_success ''success'')
   \<and> jget reply_401_success ''result'' = JStr ''SUCCESS''
   \<and> truthy (jget reply_401_success ''payment'')
   \<and> sale_bucket reply_401_success = TerminalError
   \<and> snd (cloverHandleResponse reply_401_success ''L1'' pos0) = Resolved (JBool False)
   \<and> lines (fst (cloverHandleResponse reply_401_success ''L1'' pos0)) ''L1''
       = line0\<lparr>payment_status := ''force_done''\<rparr>
   \<and> dialogs (fst (cloverHandleResponse reply_401_success ''L1'' pos0))
       = [(''Clover Error'',
           Message ''Authentication failed. Please check your Clover credentials.'' [])]"
proof -
  have h: "truthy (jget reply_401_success ''error'')"
    by (simp add: reply_401_success_def)
  from error_wins [OF h, of "''L1''" pos0] show ?thesis
    by (simp add: reply_401_success_def setPaymentStatus_def showError_def pos0_def)
qed

section \<open>Properties of the initiation\<close>

text \<open>
  Claim C5. For a line of the order whose amount is negative, \<^verbatim>\<open>sendPaymentRequest\<close>
  resolves to \<open>false\<close>; the only effect is the error dialog: no line changes (so the
  line's status is as before) and no call to the backend is made.
\<close>

theorem negative_amount_rejected:
  assumes "uuid \<in> set (payment_ids s)" and "amount (lines s uuid) < 0"
  shows "sendPaymentRequest uuid welcome sale pend s =
           (showError (Message ''Cannot process transactions with negative amount.'' []) s,
            Resolved (JBool False))
     \<and> lines (fst (sendPaymentRequest uuid welcome sale pend s)) = lines s
     \<and> calls (fst (sendPaymentRequest uuid welcome sale pend s)) = calls s"
  using assms by (simp add: sendPaymentRequest_def cloverPay_def showError_def)

theorem negative_amount_rejected_witness:
  "''L2'' \<in> set (payment_ids pos_refund) \<and> amount (lines pos_refund ''L2'') = - 5
   \<and> snd (sendPaymentRequest ''L2'' (Reply JNull) (Reply (JObj [(''success'', JBool True)]))
            (Some ''L2'') pos_refund) = Resolved (JBool False)
   \<and> payment_status (lines (fst (sendPaymentRequest ''L2'' (Reply JNull)
            (Reply (JObj [(''success'', JBool True)])) (Some ''L2'') pos_refund)) ''L2'') = ''pending''
   \<and> calls (fst (sendPaymentRequest ''L2'' (Reply JNull)
            (Reply (JObj [(''success'', JBool True)])) (Some ''L2'') pos_refund)) = []"
proof -
  have h1: "''L2'' \<in> set (payment_ids pos_refund)"
    by (simp add: pos_refund_def)
  have h2: "amount (lines pos_refund ''L2'') < 0"
    by (simp add: pos_refund_def)
  from negative_amount_rejected [OF h1 h2] show ?thesis
    by (simp add: pos_refund_def pos0_def line0_def showError_def)
qed

section \<open>Properties of the proxy client\<close>

lemma handleOdooConnectionFailure_eq:
  "handleOdooConnectionFailure e pend s =
     (showError connection_message
        (case pend of Some u \<Rightarrow> setPaymentStatus u ''retry'' s | None \<Rightarrow> s),
      if e = JUndef then JObj [] else e)"
  by (simp add: handleOdooConnectionFailure_def connection_message_def Let_def)

text \<open>
  Claim C6. When a proxy call fails, the state in which the caller receives the rejection
  already has the line that the store reports as pending in status \<open>retry\<close>, and the
  connectivity message on the operator's screen. The rejection carries the error of the
  transport (an empty object when that is undefined).
\<close>

theorem connection_failure_sets_retry:
  assumes "callClover data operation (Fail e) pend s = (s', out)"
  shows "out = Inl (if e = JUndef then JObj [] else e)
    \<and> (\<forall>u. pend = Some u \<longrightarrow> payment_status (lines s' u) = ''retry'')
    \<and> dialogs s' = dialogs s @ [(''Clover Error'', connection_message)]"
  using assms
  by (auto simp: callClover_def callClover_settle_def callClover_send_def
      handleOdooConnectionFailure_eq showError_def setPaymentStatus_def split: option.splits)

theorem connection_failure_sets_retry_witness:
  "payment_status (lines pos0 ''L1'') = ''pending''
   \<and> payment_status (lines (fst (callClover (JObj []) ''sale'' (Fail (JStr ''timeout''))
        (Some ''L1'') pos0)) ''L1'') = ''retry''
   \<and> snd (callClover (JObj []) ''sale'' (Fail (JStr ''timeout'')) (Some ''L1'') pos0)
       = Inl (JStr ''timeout'')
   \<and> dialogs (fst (callClover (JObj []) ''sale'' (Fail (JStr ''timeout'')) (Some ''L1'') pos0))
       = [(''Clover Error'', connection_message)]"
  using connection_failure_sets_retry [OF surjective_pairing,
      of "JObj []" "''sale''" "JStr ''timeout''" "Some ''L1''" pos0]
  by (simp add: pos0_def line0_def)

section \<open>Properties of the success path\<close>

text \<open>
  Claim C10, as the code has it. When the terminal-reported amount is falsy (absent, or
  the number 0), the success path records the line's own amount as \<open>clover_amount\<close>
  instead of the reported value. A reported amount of 0 minor units is therefore recorded
  as 0 exactly when the line's own amount is 0.
\<close>

theorem falsy_amount_falls_back:
  assumes "\<not> truthy (jget (js_or (jget response ''payment'') response) ''amount'')"
  shows "clover_amount (lines (fst (handleSuccessResponse response u s)) u)
           = Amount (amount (lines s u))
    \<and> (clover_amount (lines (fst (handleSuccessResponse response u s)) u) = Amount 0)
        = (amount (lines s u) = 0)"
  using assms by (simp add: handleSuccessResponse_def Let_def callClover_send_def)

theorem falsy_amount_falls_back_witness:
  "\<not> truthy (jget (js_or (jget reply_paid_zero ''payment'') reply_paid_zero) ''amount'')
   \<and> jget (jget reply_paid_zero ''payment'') ''amount'' = JNum 0
   \<and> clover_amount (lines (fst (handleSuccessResponse reply_paid_zero ''L1'' pos0)) ''L1'')
       = Amount (25 / 2)
   \<and> clover_amount (lines (fst (handleSuccessResponse reply_paid_zero ''L1'' pos0)) ''L1'')
       \<noteq> Amount 0
   \<and> jget (jget reply_paid ''payment'') ''amount'' = JUndef
   \<and> clover_amount (lines (fst (handleSuccessResponse reply_paid ''L1'' pos0)) ''L1'')
       = Amount (25 / 2)"
proof -
  have h0: "\<not> truthy (jget (js_or (jget reply_paid_zero ''payment'') reply_paid_zero) ''amount'')"
    by (simp add: reply_paid_zero_def js_or_def)
  have h1: "\<not> truthy (jget (js_or (jget reply_paid ''payment'') reply_paid) ''amount'')"
    by (simp add: reply_paid_def js_or_def)
  from falsy_amount_falls_back [OF h0, of "''L1''" pos0]
       falsy_amount_falls_back [OF h1, of "''L1''" pos0] h0
  show ?thesis
    by (simp add: pos0_def line0_def reply_paid_zero_def reply_paid_def)
qed

text \<open>
  Claim C10 as stated fails in its last clause. A line of amount 0 passes the test for a
  negative amount; when the terminal then reports 0 minor units, the request succeeds and
  the line's own amount, which is 0, is recorded: the reported 0 is recorded as 0.
\<close>

theorem zero_amount_counterexample:
  "amount (lines pos_zero ''L1'') = 0
   \<and> jget (jget reply_paid_zero ''payment'') ''amount'' = JNum 0
   \<and> snd (sendPaymentRequest ''L1'' (Reply JNull) (Reply reply_paid_zero) None pos_zero)
       = Resolved (JBool True)
   \<and> clover_amount (lines (fst (sendPaymentRequest ''L1'' (Reply JNull) (Reply reply_paid_zero)
        None pos_zero)) ''L1'') = Amount 0"
  by (simp add: sendPaymentRequest_def cloverPay_def callClover_def callClover_settle_def
      callClover_send_def cloverPayData_def cloverHandleResponse_def handleSuccessResponse_def
      reply_paid_zero_def pos_zero_def pos0_def line0_def js_or_def opt_jget_def Let_def)

lemma lines_callClover_send: "lines (callClover_send d operation s) = lines s"
  by (simp add: callClover_send_def)

lemma dialogs_callClover_send: "dialogs (callClover_send d operation s) = dialogs s"
  by (simp add: callClover_send_def)

lemma snd_handleSuccessResponse: "snd (handleSuccessResponse response u s) = Resolved (JBool True)"
  by (simp add: handleSuccessResponse_def Let_def)

lemma dialogs_handleSuccessResponse: "dialogs (fst (handleSuccessResponse response u s)) = dialogs s"
  by (simp add: handleSuccessResponse_def Let_def callClover_send_def)

text \<open>
  Claim C7, as the code has it. The thank-you call is sent through \<^verbatim>\<open>_callClover\<close> like
  every other call, so its failure is not swallowed: the catch handler shows the
  connectivity message and sets the line that the store reports as pending to \<open>retry\<close>.
  What the failure leaves alone is the result of the success path, which is \<open>true\<close>
  whatever happens to the call, and every field of every line other than the status.
  A thank-you call that succeeds changes nothing.
\<close>

theorem thank_you_failure_handled:
  "fst (callClover_settle (Reply v) pend (fst (handleSuccessResponse response u s)))
     = fst (handleSuccessResponse response u s)
   \<and> fst (callClover_settle (Fail e) pend (fst (handleSuccessResponse response u s)))
     = showError connection_message
         (case pend of
            Some p \<Rightarrow> setPaymentStatus p ''retry'' (fst (handleSuccessResponse response u s))
          | None \<Rightarrow> fst (handleSuccessResponse response u s))
   \<and> (\<forall>l. lines (fst (callClover_settle (Fail e) pend (fst (handleSuccessResponse response u s)))) l
          = (lines (fst (handleSuccessResponse response u s)) l)
              \<lparr>payment_status := (if pend = Some l then ''retry''
                  else payment_status (lines (fst (handleSuccessResponse response u s)) l))\<rparr>)
   \<and> snd (handleSuccessResponse response u s) = Resolved (JBool True)"
  by (simp add: callClover_settle_def handleOdooConnectionFailure_eq snd_handleSuccessResponse
      lines_showError lines_setPaymentStatus split: option.splits)

text \<open>
  Claim C7 as stated fails: after the success path on the line \<open>L1\<close>, a thank-you call
  that fails while the store still reports \<open>L1\<close> as pending leaves the line in \<open>retry\<close>
  and an error on the operator's screen; a thank-you call that succeeds leaves the
  status as it was and shows nothing.
\<close>

theorem thank_you_failure_counterexample:
  "payment_status (lines (fst (callClover_settle (Reply JNull) (Some ''L1'')
       (fst (handleSuccessResponse reply_paid ''L1'' pos0)))) ''L1'') = ''pending''
   \<and> payment_status (lines (fst (callClover_settle (Fail (JStr ''timeout'')) (Some ''L1'')
       (fst (handleSuccessResponse reply_paid ''L1'' pos0)))) ''L1'') = ''retry''
   \<and> dialogs (fst (callClover_settle (Reply JNull) (Some ''L1'')
       (fst (handleSuccessResponse reply_paid ''L1'' pos0)))) = []
   \<and> dialogs (fst (callClover_settle (Fail (JStr ''timeout'')) (Some ''L1'')
       (fst (handleSuccessResponse reply_paid ''L1'' pos0))))
       = [(''Clover Error'', connection_message)]
   \<and> calls (fst (handleSuccessResponse reply_paid ''L1'' pos0)) = [ProxyRequest ''thank_you'' (JObj [])]"
  by (simp add: callClover_settle_def handleOdooConnectionFailure_eq showError_def
      setPaymentStatus_def handleSuccessResponse_def Let_def callClover_send_def pos0_def
      line0_def reply_paid_def js_or_def opt_jget_def)

section \<open>Properties of the two delivery paths\<close>

lemma notification_bucket_isSuccess:
  "notification_bucket n =
     (if \<not> truthy n then ConnectivityFailure else if truthy (isSuccess n) then Success else Declined)"
  by (simp add: notification_bucket_def isSuccess_def)

lemma promises_handleSuccessResponse:
  "promises (fst (handleSuccessResponse r u s)) = promises s"
  "paymentLineResolvers (fst (handleSuccessResponse r u s)) = paymentLineResolvers s"
  "next_promise (fst (handleSuccessResponse r u s)) = next_promise s"
  by (simp_all add: handleSuccessResponse_def Let_def callClover_send_def)

lemma pos_waiting_fields:
  "paymentLineResolvers pos_waiting = [''L1'' \<mapsto> 0]"
  "promises pos_waiting = Map.empty"
  "next_promise pos_waiting = 1"
  "lines pos_waiting = (\<lambda>u. line0)(''L1'' := line0\<lparr>payment_status := ''waitingCard''\<rparr>)"
  "dialogs pos_waiting = []"
  "payment_ids pos_waiting = [''L1'']"
  "selected pos_waiting = Some ''L1''"
  by (simp_all add: pos_waiting_def sendPaymentRequest_def cloverPay_def pos0_def line0_def
      callClover_def callClover_settle_def callClover_send_def cloverPayData_def
      cloverHandleResponse_def reply_pending_def waitForPaymentConfirmation_def
      setPaymentStatus_def)

lemma pos_resolved_fields:
  "paymentLineResolvers pos_resolved = Map.empty"
  "promises pos_resolved = [0 \<mapsto> JUndef]"
  "lines pos_resolved = (\<lambda>u. line0)(''L1'' := line0\<lparr>payment_status := ''waitingCard''\<rparr>)"
  "dialogs pos_resolved = [(''Clover Error'', Message ''Payment failed: %s'' [JStr ''Card declined''])]"
  by (simp_all add: pos_resolved_def handleCloverStatusResponse_def Let_def notify_failed_def
      js_or_def pos_waiting_fields showError_def resolver_def)

text \<open>What each bucket of a sale reply does to the line and to the result of the request.\<close>

lemma cloverHandleResponse_bucket:
  "(case sale_bucket r of
      TerminalError \<Rightarrow>
        snd (cloverHandleResponse r u s) = Resolved (JBool False)
        \<and> lines (fst (cloverHandleResponse r u s)) = (lines s)(u := (lines s u)\<lparr>payment_status := ''force_done''\<rparr>)
    | Success \<Rightarrow> cloverHandleResponse r u s = handleSuccessResponse r u s
    | Pending \<Rightarrow>
        cloverHandleResponse r u s = waitForPaymentConfirmation u (setPaymentStatus u ''waitingCard'' s)
    | Declined \<Rightarrow>
        snd (cloverHandleResponse r u s) = Resolved (JBool False)
        \<and> lines (fst (cloverHandleResponse r u s)) = (lines s)(u := (lines s u)\<lparr>payment_status := ''retry''\<rparr>)
    | ConnectivityFailure \<Rightarrow> False)"
  by (simp add: sale_bucket_def cloverHandleResponse_def Let_def lines_setPaymentStatus lines_showError)

text \<open>What each bucket of a notification delivers to a waiter that is parked for the line.\<close>

lemma handleCloverStatusResponse_bucket:
  assumes "paymentLineResolvers s u = Some p" and "promises s p = None"
  shows "(case notification_bucket n of
      Success \<Rightarrow>
        promises (fst (handleCloverStatusResponse hp (Reply n) (Some u) s)) p = Some (isSuccess n)
        \<and> truthy (isSuccess n)
    | Declined \<Rightarrow>
        promises (fst (handleCloverStatusResponse hp (Reply n) (Some u) s)) p = Some (isSuccess n)
        \<and> \<not> truthy (isSuccess n)
    | ConnectivityFailure \<Rightarrow>
        promises (fst (handleCloverStatusResponse hp (Reply n) (Some u) s)) p = None
    | other \<Rightarrow> False)"
  using assms
  by (simp add: notification_bucket_isSuccess handleCloverStatusResponse_def Let_def
      isSuccess_def [symmetric] promises_handleSuccessResponse resolver_def showError_def
      handleOdooConnectionFailure_eq setPaymentStatus_def)

text \<open>
  Claim C2, as the code has it. The two paths classify with different rules. The
  notification path knows success (\<^verbatim>\<open>payment.result === 'SUCCESS'\<close> or a truthy
  \<^verbatim>\<open>success\<close> flag) and failure only, and does not look at the \<open>error\<close> field. The two
  agree this far: a payload without a truthy \<open>error\<close> field that the notification path
  takes as a success is a success as a sale reply too; and when such a payload has no
  truthy \<open>payment\<close> sub-object, the two paths agree on whether it is a success.
\<close>

theorem buckets_agree_on_success:
  assumes "\<not> truthy (jget n ''error'')"
  shows "(notification_bucket n = Success \<longrightarrow> sale_bucket n = Success)
    \<and> (\<not> truthy (jget n ''payment'') \<longrightarrow>
         (sale_bucket n = Success) = (notification_bucket n = Success))"
  using assms
  by (cases n) (auto simp: notification_bucket_def sale_bucket_def js_or_def split: if_splits)

theorem buckets_agree_on_success_witness:
  "\<not> truthy (jget notify_paid ''error'') \<and> notification_bucket notify_paid = Success
   \<and> sale_bucket notify_paid = Success
   \<and> \<not> truthy (jget reply_pending ''error'') \<and> \<not> truthy (jget reply_pending ''payment'')
   \<and> notification_bucket reply_pending = Declined \<and> sale_bucket reply_pending \<noteq> Success"
proof -
  have h1: "\<not> truthy (jget notify_paid ''error'')" by (simp add: notify_paid_def)
  have h2: "\<not> truthy (jget reply_pending ''error'')" by (simp add: reply_pending_def)
  have n1: "notification_bucket notify_paid = Success"
    by (simp add: notification_bucket_def notify_paid_def js_or_def)
  have n2: "notification_bucket reply_pending = Declined"
    by (simp add: notification_bucket_def reply_pending_def js_or_def)
  have p2: "\<not> truthy (jget reply_pending ''payment'')" by (simp add: reply_pending_def)
  from buckets_agree_on_success [OF h1] buckets_agree_on_success [OF h2] h1 h2 n1 n2 p2
  show ?thesis by simp
qed

text \<open>
  Claim C2 as stated fails. A payload with an error and a success flag is a terminal
  error as a sale reply (the line is forced done, the request gives \<open>false\<close>) and a
  success as a notification (the waiter of \<open>L1\<close> gets \<open>true\<close> and the settlement fields
  are written). A pending payload is pending as a sale reply and a failure as a
  notification; a payload with a payment sub-object and no result is a success as a sale
  reply and a failure as a notification; an absent payload is a terminal error as a sale
  reply and a failed connection as a notification.
\<close>

theorem buckets_differ_counterexample:
  "sale_bucket reply_401_success = TerminalError
   \<and> notification_bucket reply_401_success = Success
   \<and> sale_bucket reply_pending = Pending \<and> notification_bucket reply_pending = Declined
   \<and> sale_bucket reply_payment_only = Success
   \<and> notification_bucket reply_payment_only = Declined
   \<and> sale_bucket JNull = TerminalError \<and> notification_bucket JNull = ConnectivityFailure
   \<and> snd (cloverHandleResponse reply_401_success ''L1'' pos0) = Resolved (JBool False)
   \<and> payment_status (lines (fst (cloverHandleResponse reply_401_success ''L1'' pos0)) ''L1'')
       = ''force_done''
   \<and> promises (fst (handleCloverStatusResponse framework_handlePaymentResponse
        (Reply reply_401_success) (Some ''L1'') pos_waiting)) 0 = Some (JBool True)
   \<and> clover_payment_id (lines (fst (handleCloverStatusResponse framework_handlePaymentResponse
        (Reply reply_401_success) (Some ''L1'') pos_waiting)) ''L1'') = JStr ''p1''"
  by (simp add: sale_bucket_def notification_bucket_def reply_401_success_def reply_pending_def
      reply_payment_only_def js_or_def cloverHandleResponse_def setPaymentStatus_def showError_def
      pos0_def handleCloverStatusResponse_def handleSuccessResponse_def callClover_send_def
      pos_waiting_fields resolver_def opt_jget_def Let_def)

section \<open>Properties of the confirmation broker\<close>

lemma handleCloverStatusResponse_no_resolver:
  assumes "paymentLineResolvers s u = None"
  shows "promises (fst (handleCloverStatusResponse hp r (Some u) s)) = promises s"
    and "paymentLineResolvers (fst (handleCloverStatusResponse hp r (Some u) s))
           = paymentLineResolvers s"
    and "truthy n \<Longrightarrow> lines (fst (handleCloverStatusResponse hp (Reply n) (Some u) s)) u
           = hp (isSuccess n)
               (lines (if truthy (isSuccess n) then fst (handleSuccessResponse n u s) else s) u)"
  using assms
  by (simp_all add: handleCloverStatusResponse_def Let_def isSuccess_def [symmetric]
      promises_handleSuccessResponse showError_def handleOdooConnectionFailure_eq
      setPaymentStatus_def handleSuccessResponse_def callClover_send_def split: rpc.splits)

lemma handleCloverStatusResponse_resolver:
  assumes "paymentLineResolvers s u = Some p" and "promises s p = None" and "truthy n"
  shows "paymentLineResolvers (fst (handleCloverStatusResponse hp (Reply n) (Some u) s)) u = None"
    and "promises (fst (handleCloverStatusResponse hp (Reply n) (Some u) s)) p = Some (isSuccess n)"
    and "lines (fst (handleCloverStatusResponse hp (Reply n) (Some u) s))
           = lines (if truthy (isSuccess n) then fst (handleSuccessResponse n u s) else s)"
  using assms
  by (simp_all add: handleCloverStatusResponse_def Let_def isSuccess_def [symmetric]
      promises_handleSuccessResponse showError_def resolver_def handleSuccessResponse_def
      callClover_send_def)

text \<open>
  Claim C1, as the code has it. Take a line \<open>u\<close> with an outstanding waiter, a first
  notification \<open>n1\<close> that consumes and deletes its resolver, and a second notification
  \<open>n2\<close> for the same line. The waiter is resolved once, by the first notification, with
  its \<open>isSuccess\<close>. The second call calls no resolver: no promise changes, and the table
  of resolvers stays as the first call left it. It is not a no-op on the line, though:
  finding no resolver it falls back to \<^verbatim>\<open>line.handlePaymentResponse(isSuccess)\<close>, after
  the success path has written the settlement fields of \<open>n2\<close> when \<open>n2\<close> is a success.
\<close>

theorem second_notification_falls_back:
  assumes "paymentLineResolvers s u = Some p" and "promises s p = None" and "truthy n1"
    and "s1 = fst (handleCloverStatusResponse hp (Reply n1) (Some u) s)"
    and "s2 = fst (handleCloverStatusResponse hp (Reply n2) (Some u) s1)"
  shows "paymentLineResolvers s1 u = None \<and> promises s1 p = Some (isSuccess n1)
    \<and> promises s2 = promises s1 \<and> paymentLineResolvers s2 = paymentLineResolvers s1
    \<and> (truthy n2 \<longrightarrow>
         lines s2 u = hp (isSuccess n2)
           (lines (if truthy (isSuccess n2) then fst (handleSuccessResponse n2 u s1) else s1) u))"
proof -
  have r: "paymentLineResolvers s1 u = None"
    using assms by (simp add: handleCloverStatusResponse_resolver)
  show ?thesis
    using assms(1-4) r
    by (simp add: handleCloverStatusResponse_resolver(2) assms(5)
        handleCloverStatusResponse_no_resolver)
qed

theorem second_notification_falls_back_witness:
  "paymentLineResolvers pos_waiting ''L1'' = Some 0 \<and> promises pos_waiting 0 = None
   \<and> truthy notify_failed
   \<and> paymentLineResolvers pos_resolved ''L1'' = None
   \<and> promises pos_resolved 0 = Some JUndef
   \<and> promises (fst (handleCloverStatusResponse framework_handlePaymentResponse
        (Reply notify_paid) (Some ''L1'') pos_resolved)) = promises pos_resolved
   \<and> paymentLineResolvers (fst (handleCloverStatusResponse framework_handlePaymentResponse
        (Reply notify_paid) (Some ''L1'') pos_resolved)) = paymentLineResolvers pos_resolved
   \<and> payment_status (lines (fst (handleCloverStatusResponse framework_handlePaymentResponse
        (Reply notify_paid) (Some ''L1'') pos_resolved)) ''L1'') = ''done''"
proof -
  have h1: "paymentLineResolvers pos_waiting ''L1'' = Some 0"
    by (simp add: pos_waiting_fields)
  have h2: "promises pos_waiting 0 = None"
    by (simp add: pos_waiting_fields)
  have h3: "truthy notify_failed"
    by (simp add: notify_failed_def)
  have h4: "truthy notify_paid"
    by (simp add: notify_paid_def)
  from second_notification_falls_back [OF h1 h2 h3 pos_resolved_def refl, of notify_paid]
    h1 h2 h3 h4
  show ?thesis
    by (simp add: isSuccess_def notify_failed_def notify_paid_def js_or_def
        framework_handlePaymentResponse_def)
qed

text \<open>
  Claim C1 as stated fails. The waiter of \<open>L1\<close> is resolved by a first notification, a
  failure; the resolver is deleted and the line is as it was. A second notification for
  \<open>L1\<close>, a success, then writes the payment id on the line and has the framework mark it
  done: a second change of the line.
\<close>

theorem second_notification_counterexample:
  "paymentLineResolvers pos_waiting ''L1'' = Some 0
   \<and> paymentLineResolvers pos_resolved ''L1'' = None
   \<and> promises pos_resolved 0 = Some JUndef
   \<and> payment_status (lines pos_resolved ''L1'') = ''waitingCard''
   \<and> clover_payment_id (lines pos_resolved ''L1'') = JUndef
   \<and> payment_status (lines (fst (handleCloverStatusResponse framework_handlePaymentResponse
        (Reply notify_paid) (Some ''L1'') pos_resolved)) ''L1'') = ''done''
   \<and> clover_payment_id (lines (fst (handleCloverStatusResponse framework_handlePaymentResponse
        (Reply notify_paid) (Some ''L1'') pos_resolved)) ''L1'') = JStr ''p1''
   \<and> lines (fst (handleCloverStatusResponse framework_handlePaymentResponse
        (Reply notify_paid) (Some ''L1'') pos_resolved)) ''L1'' \<noteq> lines pos_resolved ''L1''"
proof -
  have a: "payment_status (lines (fst (handleCloverStatusResponse framework_handlePaymentResponse
        (Reply notify_paid) (Some ''L1'') pos_resolved)) ''L1'') = ''done''"
    by (simp add: handleCloverStatusResponse_def Let_def notify_paid_def js_or_def
        pos_resolved_fields handleSuccessResponse_def callClover_send_def
        framework_handlePaymentResponse_def)
  have b: "clover_payment_id (lines (fst (handleCloverStatusResponse framework_handlePaymentResponse
        (Reply notify_paid) (Some ''L1'') pos_resolved)) ''L1'') = JStr ''p1''"
    by (simp add: handleCloverStatusResponse_def Let_def notify_paid_def js_or_def
        pos_resolved_fields handleSuccessResponse_def callClover_send_def
        framework_handlePaymentResponse_def)
  have c: "payment_status (lines pos_resolved ''L1'') = ''waitingCard''"
    by (simp add: pos_resolved_fields)
  have d: "lines (fst (handleCloverStatusResponse framework_handlePaymentResponse
        (Reply notify_paid) (Some ''L1'') pos_resolved)) ''L1'' \<noteq> lines pos_resolved ''L1''"
    using a c by auto
  show ?thesis
    using a b c d by (simp add: pos_waiting_fields pos_resolved_fields line0_def)
qed

section \<open>The waiters in every reachable state\<close>

lemma same_waiters_refl: "same_waiters s s"
  by (simp add: same_waiters_def)

lemma same_waiters_trans: "same_waiters s s1 \<Longrightarrow> same_waiters s1 s2 \<Longrightarrow> same_waiters s s2"
  by (simp add: same_waiters_def)

lemma same_waiters_showError: "same_waiters s (showError m s)"
  by (simp add: same_waiters_def showError_def)

lemma same_waiters_setPaymentStatus: "same_waiters s (setPaymentStatus u st s)"
  by (simp add: same_waiters_def setPaymentStatus_def)

lemma same_waiters_callClover_send: "same_waiters s (callClover_send d operation s)"
  by (simp add: same_waiters_def callClover_send_def)

lemma same_waiters_failure: "same_waiters s (fst (handleOdooConnectionFailure e pend s))"
  by (simp add: same_waiters_def handleOdooConnectionFailure_eq showError_def
      setPaymentStatus_def split: option.splits)

lemma same_waiters_settle: "same_waiters s (fst (callClover_settle r pend s))"
  using same_waiters_failure [of s]
  by (simp add: callClover_settle_def same_waiters_refl split: rpc.splits)

lemma same_waiters_callClover: "same_waiters s (fst (callClover d operation r pend s))"
  unfolding callClover_def
  by (rule same_waiters_trans [OF same_waiters_callClover_send same_waiters_settle])

lemma same_waiters_success: "same_waiters s (fst (handleSuccessResponse r u s))"
  by (simp add: same_waiters_def handleSuccessResponse_def Let_def callClover_send_def)

lemma same_waiters_cancel: "same_waiters s (fst (cloverCancel ig r pend s))"
proof -
  obtain s1 out where c: "callClover (JObj []) ''cancel'' r pend s = (s1, out)"
    by (cases "callClover (JObj []) ''cancel'' r pend s")
  have "same_waiters s s1"
    using same_waiters_callClover [of s "JObj []" "''cancel''" r pend] c by simp
  moreover have "same_waiters s1 (fst (cloverCancel ig r pend s))"
    using c by (cases out) (simp_all add: cloverCancel_def same_waiters_refl same_waiters_showError)
  ultimately show ?thesis by (rule same_waiters_trans)
qed

lemma registers_wait: "registers u s (fst (waitForPaymentConfirmation u s))"
  by (simp add: registers_def waitForPaymentConfirmation_def)

lemma same_registers: "same_waiters s s1 \<Longrightarrow> registers u s1 s2 \<Longrightarrow> registers u s s2"
  by (simp add: same_waiters_def registers_def)

lemma cloverHandleResponse_waiters:
  "same_waiters s (fst (cloverHandleResponse r u s)) \<or> registers u s (fst (cloverHandleResponse r u s))"
  by (simp add: cloverHandleResponse_def Let_def same_waiters_success
      same_waiters_trans [OF same_waiters_showError same_waiters_setPaymentStatus]
      same_registers [OF same_waiters_setPaymentStatus registers_wait])


lemma callClover_waitersD: "callClover d operation r pend s = (s1, out) \<Longrightarrow> same_waiters s s1"
  using same_waiters_callClover [of s d operation r pend] by simp

lemma cloverPay_waiters:
  "same_waiters s (fst (cloverPay uuid welcome sale pend s))
   \<or> registers uuid s (fst (cloverPay uuid welcome sale pend s))"
proof -
  obtain s1 o1 where c1: "callClover (JObj []) ''welcome'' welcome pend s = (s1, o1)"
    by (cases "callClover (JObj []) ''welcome'' welcome pend s")
  have w1: "same_waiters s s1" by (rule callClover_waitersD [OF c1])
  show ?thesis
  proof (cases "cloverPayData s1")
    case None
    then show ?thesis
      using c1 w1
      by (auto simp: cloverPay_def same_waiters_refl same_waiters_showError split: sum.splits)
  next
    case (Some data)
    obtain s2 o2 where c2: "callClover data ''sale'' sale pend s1 = (s2, o2)"
      by (cases "callClover data ''sale'' sale pend s1")
    have w2: "same_waiters s s2"
      by (rule same_waiters_trans [OF w1 callClover_waitersD [OF c2]])
    have w3: "same_waiters s (setPaymentStatus uuid ''retry'' (showError m s2))" for m
      by (rule same_waiters_trans [OF w2
            same_waiters_trans [OF same_waiters_showError same_waiters_setPaymentStatus]])
    have w4: "same_waiters s (fst (cloverHandleResponse r uuid s2))
              \<or> registers uuid s (fst (cloverHandleResponse r uuid s2))" for r
      using cloverHandleResponse_waiters [of s2 r uuid] w2
      by (auto intro: same_waiters_trans same_registers)
    show ?thesis
      using c1 c2 Some w1 w2 w3 w4
      by (auto simp: cloverPay_def same_waiters_refl same_waiters_showError
          split: sum.splits)
  qed
qed

lemma handleCloverStatusResponse_waiters:
  "same_waiters s (fst (handleCloverStatusResponse hp r pend s))
   \<or> (\<exists>u p v. resolves u p v s (fst (handleCloverStatusResponse hp r pend s)))"
proof -
  let ?s0 = "s\<lparr>calls := calls s @ [LatestStatus]\<rparr>"
  have a: "same_waiters s ?s0"
    by (simp add: same_waiters_def)
  show ?thesis
  proof (cases r)
    case (Fail e)
    then show ?thesis using a by (simp add: handleCloverStatusResponse_def)
  next
    case (Reply n)
    show ?thesis
    proof (cases "truthy n \<and> pend \<noteq> None")
      case False
      then show ?thesis
        using Reply a same_waiters_trans [OF a same_waiters_failure [of ?s0 JUndef pend]]
        by (auto simp: handleCloverStatusResponse_def Let_def)
    next
      case True
      then obtain u where u: "pend = Some u" and n: "truthy n" by auto
      let ?s1 = "if truthy (isSuccess n) then fst (handleSuccessResponse n u ?s0)
                 else showError (Message ''Payment failed: %s''
                        [js_or (jget (js_or (jget n ''payment'') n) ''failureMessage'')
                           (js_or (jget (js_or (jget n ''payment'') n) ''reason'')
                              (JStr ''Payment failed''))]) ?s0"
      have b: "same_waiters s ?s1"
        using same_waiters_trans [OF a same_waiters_success]
              same_waiters_trans [OF a same_waiters_showError]
        by simp
      show ?thesis
      proof (cases "paymentLineResolvers s u")
        case None
        then show ?thesis
          using Reply u n b
          by (simp add: handleCloverStatusResponse_def Let_def isSuccess_def [symmetric]
              same_waiters_def)
      next
        case (Some p)
        have "resolves u p (isSuccess n) s (fst (handleCloverStatusResponse hp r pend s))"
          using Reply u n b Some
          by (simp add: handleCloverStatusResponse_def Let_def isSuccess_def [symmetric]
              same_waiters_def resolves_def resolver_def)
        then show ?thesis by blast
      qed
    qed
  qed
qed

lemma step_waiters:
  assumes "step s s'"
  shows "same_waiters s s' \<or> (\<exists>u. registers u s s') \<or> (\<exists>u p v. resolves u p v s s')"
  using assms
proof cases
  case (request uuid w sl pend)
  then show ?thesis
    using cloverPay_waiters [of s uuid w sl pend]
    by (auto simp: sendPaymentRequest_def)
next
  case (notification hp r pend)
  then show ?thesis
    using handleCloverStatusResponse_waiters [of s hp r pend] by auto
next
  case (cancel r pend)
  then show ?thesis
    by (simp add: sendPaymentCancel_def same_waiters_cancel)
next
  case (closing r pend)
  then show ?thesis
    by (simp add: close_clover_def same_waiters_cancel)
next
  case (settled r pend)
  then show ?thesis
    by (simp add: same_waiters_settle)
next
  case (store l ids sel)
  then show ?thesis
    by (simp add: same_waiters_def)
qed

lemma waiters_ok_same: "waiters_ok s \<Longrightarrow> same_waiters s s' \<Longrightarrow> waiters_ok s'"
  by (simp add: waiters_ok_def same_waiters_def)

lemma waiters_ok_registers:
  assumes "waiters_ok s" and "registers u s s'"
  shows "waiters_ok s'"
proof -
  have fresh: "promises s (next_promise s) = None"
    using assms(1) by (cases "promises s (next_promise s)") (auto simp: waiters_ok_def)
  show ?thesis
    using assms fresh
    unfolding waiters_ok_def registers_def
    by (auto simp: less_Suc_eq split: if_splits)
qed

lemma waiters_ok_resolves:
  assumes "waiters_ok s" and "resolves u p v s s'"
  shows "waiters_ok s'"
  using assms
  unfolding waiters_ok_def resolves_def
  by (auto split: if_splits)

lemma waiters_ok_step: "waiters_ok s \<Longrightarrow> step s s' \<Longrightarrow> waiters_ok s'"
  using step_waiters [of s s']
  by (auto intro: waiters_ok_same waiters_ok_registers waiters_ok_resolves)

lemma reachable_waiters_ok: "reachable s \<Longrightarrow> waiters_ok s"
proof (induction rule: reachable.induct)
  case (reach_start s)
  then show ?case by (simp add: waiters_ok_def setup_clover_def)
next
  case (reach_step s s')
  then show ?case by (simp add: waiters_ok_step)
qed

lemma orphaned_step:
  assumes "orphaned p s" and "step s s'"
  shows "orphaned p s'"
  using step_waiters [OF assms(2)] assms(1)
  unfolding orphaned_def same_waiters_def registers_def resolves_def
  by (auto split: if_splits)

lemma orphaned_steps: "step\<^sup>*\<^sup>* s s' \<Longrightarrow> orphaned p s \<Longrightarrow> orphaned p s'"
  by (induction rule: rtranclp_induct) (auto intro: orphaned_step)

lemma reachable_pos_waiting: "reachable pos_waiting"
proof -
  have "setup_clover pos0 = pos0"
    by (simp add: setup_clover_def pos0_def)
  moreover have "reachable (setup_clover pos0)"
    by (rule reach_start) (simp_all add: pos0_def)
  ultimately have "reachable pos0" by simp
  then show ?thesis
    unfolding pos_waiting_def by (rule reach_step) (rule step.request)
qed

text \<open>
  Claim C4, as the code has it. In every reachable state a line has at most one resolver
  stored, the resolver of a promise that exists and is not resolved, and no two lines
  share a promise. Registering a waiter for a line that has one outstanding is not
  guarded: the call parks the caller on a new promise and stores its resolver over the
  earlier one, without any dialog. The earlier promise has its resolver stored nowhere
  from then on, and is not resolved in any later state.
\<close>

theorem second_waiter_overwrites:
  assumes "reachable s" and "paymentLineResolvers s u = Some p"
  shows "waiters_ok s
    \<and> snd (waitForPaymentConfirmation u s) = Parked (next_promise s)
    \<and> paymentLineResolvers (fst (waitForPaymentConfirmation u s)) u = Some (next_promise s)
    \<and> next_promise s \<noteq> p
    \<and> dialogs (fst (waitForPaymentConfirmation u s)) = dialogs s
    \<and> orphaned p (fst (waitForPaymentConfirmation u s))
    \<and> (\<forall>s'. step\<^sup>*\<^sup>* (fst (waitForPaymentConfirmation u s)) s' \<longrightarrow> promises s' p = None)"
proof -
  have ok: "waiters_ok s" by (rule reachable_waiters_ok [OF assms(1)])
  have lt: "p < next_promise s" and un: "promises s p = None"
    and inj: "\<And>v. paymentLineResolvers s v = Some p \<Longrightarrow> v = u"
    using ok assms(2) unfolding waiters_ok_def by blast+
  have orph: "orphaned p (fst (waitForPaymentConfirmation u s))"
    using lt un inj by (auto simp: orphaned_def waitForPaymentConfirmation_def)
  have later: "\<forall>s'. step\<^sup>*\<^sup>* (fst (waitForPaymentConfirmation u s)) s' \<longrightarrow> promises s' p = None"
    using orphaned_steps [OF _ orph] by (auto simp: orphaned_def)
  show ?thesis
    using ok lt orph later by (simp add: waitForPaymentConfirmation_def)
qed

theorem second_waiter_overwrites_witness:
  "reachable pos_waiting \<and> paymentLineResolvers pos_waiting ''L1'' = Some 0
   \<and> snd (waitForPaymentConfirmation ''L1'' pos_waiting) = Parked 1
   \<and> paymentLineResolvers (fst (waitForPaymentConfirmation ''L1'' pos_waiting)) ''L1'' = Some 1
   \<and> dialogs (fst (waitForPaymentConfirmation ''L1'' pos_waiting)) = []
   \<and> orphaned 0 (fst (waitForPaymentConfirmation ''L1'' pos_waiting))
   \<and> promises (fst (handleCloverStatusResponse framework_handlePaymentResponse (Reply notify_paid)
        (Some ''L1'') (fst (waitForPaymentConfirmation ''L1'' pos_waiting)))) 0 = None"
proof -
  have h: "paymentLineResolvers pos_waiting ''L1'' = Some 0"
    by (simp add: pos_waiting_fields)
  have st: "step\<^sup>*\<^sup>* (fst (waitForPaymentConfirmation ''L1'' pos_waiting))
     (fst (handleCloverStatusResponse framework_handlePaymentResponse (Reply notify_paid)
        (Some ''L1'') (fst (waitForPaymentConfirmation ''L1'' pos_waiting))))"
    by (rule r_into_rtranclp) (rule step.notification)
  from second_waiter_overwrites [OF reachable_pos_waiting h] st reachable_pos_waiting
  show ?thesis
    by (simp add: pos_waiting_fields)
qed

text \<open>
  Claim C4 as stated fails. With a waiter outstanding for \<open>L1\<close> (promise 0), a second
  sale request for \<open>L1\<close> that the terminal leaves pending is not rejected: it parks on
  promise 1, whose resolver replaces the stored one. No dialog is shown, and promise 0
  stays unresolved.
\<close>

theorem second_waiter_counterexample:
  "paymentLineResolvers pos_waiting ''L1'' = Some 0 \<and> promises pos_waiting 0 = None
   \<and> snd (sendPaymentRequest ''L1'' (Reply JNull) (Reply reply_pending) None pos_waiting)
       = Parked 1
   \<and> paymentLineResolvers
        (fst (sendPaymentRequest ''L1'' (Reply JNull) (Reply reply_pending) None pos_waiting)) ''L1''
       = Some 1
   \<and> dialogs (fst (sendPaymentRequest ''L1'' (Reply JNull) (Reply reply_pending) None pos_waiting))
       = dialogs pos_waiting
   \<and> dialogs pos_waiting = []
   \<and> promises (fst (sendPaymentRequest ''L1'' (Reply JNull) (Reply reply_pending) None pos_waiting)) 0
       = None"
  by (simp add: pos_waiting_fields sendPaymentRequest_def cloverPay_def
      callClover_def callClover_settle_def callClover_send_def cloverPayData_def
      cloverHandleResponse_def reply_pending_def waitForPaymentConfirmation_def
      setPaymentStatus_def line0_def)

section \<open>Properties of the amounts\<close>

lemma log2i_bounds: "0 < n \<Longrightarrow> 2 ^ log2i n \<le> n \<and> n < 2 ^ Suc (log2i n)"
proof (induction n rule: log2i.induct)
  case (1 n)
  show ?case
  proof (cases "n < 2")
    case True
    with "1.prems" have "n = 1" by simp
    then show ?thesis by (simp add: log2i.simps)
  next
    case False
    then have pos: "0 < n div 2" by simp
    from "1.IH" [OF False pos]
    have lo: "2 ^ log2i (n div 2) \<le> n div 2" and hi: "n div 2 < 2 ^ Suc (log2i (n div 2))"
      by simp_all
    have eq: "log2i n = Suc (log2i (n div 2))"
      using False by (subst log2i.simps) simp
    have "2 * 2 ^ log2i (n div 2) \<le> n" using lo by linarith
    moreover have "n < 2 * 2 ^ Suc (log2i (n div 2))" using hi by linarith
    ultimately show ?thesis by (simp add: eq)
  qed
qed

lemma pow2_powi: "pow2 e = 2 powi e"
  by (simp add: pow2_def power_int_def inverse_eq_divide power_one_over)

lemma pow2_pos: "0 < pow2 e"
  by (simp add: pow2_powi)

lemma pow2_add: "pow2 (a + b) = pow2 a * pow2 b"
  by (simp add: pow2_powi power_int_add)

lemma ilog2_le:
  assumes "0 < x"
  shows "pow2 (ilog2 x) \<le> x"
proof (cases "1 \<le> x")
  case True
  then have pos: "0 < \<lfloor>x\<rfloor>" by simp
  have "(2::int) ^ log2i \<lfloor>x\<rfloor> \<le> \<lfloor>x\<rfloor>"
    using log2i_bounds [OF pos] by simp
  then have "(of_int (2 ^ log2i \<lfloor>x\<rfloor>) :: rat) \<le> of_int \<lfloor>x\<rfloor>"
    by (simp only: of_int_le_iff)
  also have "\<dots> \<le> x" by simp
  finally show ?thesis
    using True by (simp add: ilog2_def pow2_def)
next
  case False
  define m where "m = \<lceil>1 / x\<rceil> - 1"
  have gt1: "1 < 1 / x" using assms False by simp
  then have "1 < \<lceil>1 / x\<rceil>" by (simp add: less_ceiling_iff)
  then have mpos: "0 < m" by (simp add: m_def)
  have "m < 2 ^ Suc (log2i m)"
    using log2i_bounds [OF mpos] by simp
  then have "\<lceil>1 / x\<rceil> \<le> 2 ^ Suc (log2i m)" by (simp add: m_def)
  then have "(of_int \<lceil>1 / x\<rceil> :: rat) \<le> of_int (2 ^ Suc (log2i m))"
    by (simp only: of_int_le_iff)
  then have "(of_int \<lceil>1 / x\<rceil> :: rat) \<le> 2 ^ Suc (log2i m)"
    by simp
  then have "1 / x \<le> 2 ^ Suc (log2i m)"
    using le_of_int_ceiling [of "1 / x"] by (rule order_trans [rotated])
  then have "1 / 2 ^ Suc (log2i m) \<le> x"
    using assms by (simp add: field_simps)
  moreover have "nat (int (log2i m) + 1) = Suc (log2i m)"
    by linarith
  ultimately show ?thesis
    using False by (simp add: ilog2_def pow2_def m_def [symmetric])
qed

lemma round_even_err: "\<bar>of_int (round_even y) - y\<bar> \<le> 1 / 2"
proof -
  have "of_int \<lfloor>y\<rfloor> \<le> y" and "y < of_int \<lfloor>y\<rfloor> + 1"
    by linarith+
  then show ?thesis
    by (auto simp: round_even_def Let_def)
qed

lemma fl_err: "\<bar>fl x - x\<bar> \<le> \<bar>x\<bar> / 2 ^ 53"
proof (cases "x = 0")
  case True
  then show ?thesis by (simp add: fl_def)
next
  case False
  define u where "u = pow2 (ilog2 \<bar>x\<bar> - 52)"
  have upos: "0 < u" by (simp add: u_def pow2_pos)
  have "u = pow2 (ilog2 \<bar>x\<bar>) * pow2 (- 52)"
    unfolding u_def using pow2_add [of "ilog2 \<bar>x\<bar>" "- 52"] by simp
  also have "\<dots> \<le> \<bar>x\<bar> * pow2 (- 52)"
    using ilog2_le [of "\<bar>x\<bar>"] False pow2_pos [of "- 52"] by simp
  finally have ule: "u \<le> \<bar>x\<bar> / 2 ^ 52"
    by (simp add: pow2_def)
  have "fl x - x = (of_int (round_even (x / u)) - x / u) * u"
    using False upos by (simp add: fl_def u_def [symmetric] Let_def field_simps)
  then have "\<bar>fl x - x\<bar> = \<bar>of_int (round_even (x / u)) - x / u\<bar> * u"
    using upos by (simp add: abs_mult)
  also have "\<dots> \<le> 1 / 2 * u"
    using round_even_err [of "x / u"] upos by (simp add: mult_right_mono)
  also have "\<dots> \<le> \<bar>x\<bar> / 2 ^ 53"
    using ule by simp
  finally show ?thesis .
qed

lemma minor_units_exact:
  assumes "\<bar>n\<bar> \<le> 2 ^ 50"
  shows "js_round (fl (fl (of_int n / 100) * 100)) = n"
proof -
  define a where "a = fl (of_int n / 100)"
  define y where "y = a * 100"
  have nb: "\<bar>of_int n :: rat\<bar> \<le> 2 ^ 50"
  proof -
    have "(of_int \<bar>n\<bar> :: rat) \<le> of_int (2 ^ 50)"
      using assms by (simp only: of_int_le_iff)
    then show ?thesis by simp
  qed
  have e1: "\<bar>a - of_int n / 100\<bar> \<le> \<bar>of_int n / 100\<bar> / 2 ^ 53"
    unfolding a_def by (rule fl_err)
  have e1': "\<bar>y - of_int n\<bar> \<le> \<bar>of_int n\<bar> / 2 ^ 53"
  proof -
    have "\<bar>y - of_int n\<bar> = 100 * \<bar>a - of_int n / 100\<bar>"
      by (simp add: y_def abs_if)
    also have "\<dots> \<le> 100 * (\<bar>of_int n / 100\<bar> / 2 ^ 53)"
      using e1 by simp
    also have "\<dots> = \<bar>of_int n\<bar> / 2 ^ 53" by simp
    finally show ?thesis .
  qed
  have e2: "\<bar>fl y - y\<bar> \<le> \<bar>y\<bar> / 2 ^ 53" by (rule fl_err)
  have d1: "\<bar>y - of_int n\<bar> \<le> 1 / 8"
    using e1' nb by simp
  have yb: "\<bar>y\<bar> \<le> 2 ^ 50 + 1 / 8"
    using d1 nb by linarith
  have d2: "\<bar>fl y - y\<bar> \<le> 1 / 4"
    using e2 yb by simp
  have "of_int n \<le> fl y + 1 / 2" and "fl y + 1 / 2 < of_int n + 1"
    using d1 d2 by linarith+
  then have "\<lfloor>fl y + 1 / 2\<rfloor> = n" by (rule floor_unique)
  then show ?thesis by (simp add: js_round_def y_def a_def)
qed

lemma big_minor_units:
  "js_round (fl (fl (4246772979301709 / 100) * 100)) = 4246772979301710"
  by code_simp

lemma big_amount_back: "fl (4246772979301710 / 100) \<noteq> fl (4246772979301709 / 100)"
  by code_simp

text \<open>
  Claim C9, as the code has it. Take a two-decimal amount \<open>n / 100\<close> of at most \<open>2^50\<close>
  minor units (about \<open>1.1e13\<close> units of currency), and a selected line whose amount is
  the double of it. The request then carries exactly \<open>n\<close> minor units, and a successful
  reply that reports \<open>n\<close> minor units has the line's own amount recorded as
  \<open>clover_amount\<close>: dividing by 100 recovers the amount.
\<close>

theorem amount_round_trip:
  assumes "\<bar>n\<bar> \<le> 2 ^ 50" and "selected s = Some l"
    and "amount (lines s l) = fl (of_int n / 100)"
    and "jget (js_or (jget response ''payment'') response) ''amount'' = JNum (of_int n)"
  shows "(\<exists>d. cloverPayData s = Some d \<and> jget d ''amount'' = JNum (of_int n))
    \<and> clover_amount (lines (fst (handleSuccessResponse response l s)) l)
        = Amount (amount (lines s l))"
proof -
  have "js_round (fl (amount (lines s l) * 100)) = n"
    using minor_units_exact [OF assms(1)] assms(3) by simp
  then have req: "\<exists>d. cloverPayData s = Some d \<and> jget d ''amount'' = JNum (of_int n)"
    using assms(2) by (simp add: cloverPayData_def)
  have rcv: "clover_amount (lines (fst (handleSuccessResponse response l s)) l)
        = Amount (amount (lines s l))"
    using assms(3,4) by (simp add: handleSuccessResponse_def Let_def callClover_send_def)
  show ?thesis using req rcv by simp
qed

theorem amount_round_trip_witness:
  "\<bar>1234 :: int\<bar> \<le> 2 ^ 50 \<and> selected pos_1234 = Some ''L1''
   \<and> amount (lines pos_1234 ''L1'') = fl (1234 / 100)
   \<and> (\<exists>d. cloverPayData pos_1234 = Some d \<and> jget d ''amount'' = JNum 1234)
   \<and> clover_amount (lines (fst (handleSuccessResponse (reply_amount 1234) ''L1'' pos_1234)) ''L1'')
       = Amount (fl (1234 / 100))"
proof -
  have h1: "\<bar>1234 :: int\<bar> \<le> 2 ^ 50" by simp
  have h2: "selected pos_1234 = Some ''L1''" by (simp add: pos_1234_def pos0_def)
  have h3: "amount (lines pos_1234 ''L1'') = fl (of_int 1234 / 100)"
    by (simp add: pos_1234_def pos0_def)
  have h4: "jget (js_or (jget (reply_amount 1234) ''payment'') (reply_amount 1234)) ''amount''
              = JNum (of_int 1234)"
    by (simp add: reply_amount_def js_or_def)
  from amount_round_trip [OF h1 h2 h3 h4] h2 h3 show ?thesis by simp
qed

text \<open>
  Claim C9 as stated fails for large amounts, where the product with 100 is rounded to a
  double that is not the amount in minor units. For the line of 42467729793017.09 the
  request carries 4246772979301710 minor units, and a success that reports them records
  42467729793017.1, which is not the line's amount.
\<close>

theorem amount_round_trip_counterexample:
  "amount (lines pos_big ''L1'') = fl (4246772979301709 / 100)
   \<and> cloverPayData pos_big = Some (JObj
        [(''amount'', JNum 4246772979301710),
         (''currency'', JStr ''USD''),
         (''externalPaymentId'', JStr ''o-1--7''),
         (''orderId'', JStr ''Order 0001''),
         (''note'', JStr ''POS Order: Order 0001''),
         (''autoAcceptPaymentConfirmations'', JBool True),
         (''autoAcceptSignature'', JBool True)])
   \<and> clover_amount (lines (fst (handleSuccessResponse (reply_amount 4246772979301710)
        ''L1'' pos_big)) ''L1'') = Amount (fl (4246772979301710 / 100))
   \<and> clover_amount (lines (fst (handleSuccessResponse (reply_amount 4246772979301710)
        ''L1'' pos_big)) ''L1'') \<noteq> Amount (amount (lines pos_big ''L1''))"
  using big_minor_units big_amount_back
  by (simp add: pos_big_def pos0_def cloverPayData_def handleSuccessResponse_def Let_def
      callClover_send_def reply_amount_def js_or_def)

section \<open>Scenarios\<close>

lemma fl_five: "fl (500 / 100) = 5"
  by code_simp

text \<open>
  A successful sale reply: the request resolves to \<open>true\<close>, the settlement fields are
  written from the reply, and the thank-you call is sent.
\<close>

lemma scenario_sale_success:
  "snd (sendPaymentRequest ''L1'' (Reply JNull) (Reply reply_visa) None pos0) = Resolved (JBool True)
   \<and> lines (fst (sendPaymentRequest ''L1'' (Reply JNull) (Reply reply_visa) None pos0)) ''L1''
       = line0\<lparr>card_type := JStr ''VISA'', transaction_id := JStr ''p1'',
           cardholder_name := JStr [], receipt_info := Some (JStr ''4242''),
           clover_payment_id := JStr ''p1'', clover_result := JStr ''SUCCESS'',
           clover_amount := Amount 5, clover_card_last_four := JStr ''4242''\<rparr>
   \<and> last (calls (fst (sendPaymentRequest ''L1'' (Reply JNull) (Reply reply_visa) None pos0)))
       = ProxyRequest ''thank_you'' (JObj [])"
  using fl_five
  by (simp add: sendPaymentRequest_def cloverPay_def callClover_def callClover_settle_def
      callClover_send_def cloverPayData_def cloverHandleResponse_def handleSuccessResponse_def
      reply_visa_def pos0_def line0_def js_or_def opt_jget_def Let_def)

text \<open>
  A sale call that fails in transport: the request resolves to \<open>false\<close>, the line is set
  to \<open>retry\<close>, the operator gets the connectivity message and the failure message, and
  no settlement field is written.
\<close>

lemma scenario_sale_transport_error:
  "snd (sendPaymentRequest ''L1'' (Reply JNull) (Fail (JObj [(''message'', JStr ''timeout'')]))
          (Some ''L1'') pos0) = Resolved (JBool False)
   \<and> lines (fst (sendPaymentRequest ''L1'' (Reply JNull)
          (Fail (JObj [(''message'', JStr ''timeout'')])) (Some ''L1'') pos0)) ''L1''
       = line0\<lparr>payment_status := ''retry''\<rparr>
   \<and> dialogs (fst (sendPaymentRequest ''L1'' (Reply JNull)
          (Fail (JObj [(''message'', JStr ''timeout'')])) (Some ''L1'') pos0))
       = [(''Clover Error'', connection_message),
          (''Clover Error'', Message ''Payment request failed: %s'' [JStr ''timeout''])]"
  by (simp add: sendPaymentRequest_def cloverPay_def callClover_def callClover_settle_def
      callClover_send_def cloverPayData_def handleOdooConnectionFailure_eq showError_def
      setPaymentStatus_def pos0_def line0_def js_or_def)

text \<open>
  A pending sale reply followed by a successful notification: the request parks on
  promise 0, the notification writes the settlement fields and resolves the promise with
  \<open>true\<close>, and the resolver is gone.
\<close>

lemma scenario_pending_then_notified:
  "snd (sendPaymentRequest ''L1'' (Reply JNull) (Reply reply_pending) None pos0) = Parked 0
   \<and> promises (fst (handleCloverStatusResponse hp (Reply notify_paid) (Some ''L1'') pos_waiting)) 0
       = Some (JBool True)
   \<and> paymentLineResolvers
        (fst (handleCloverStatusResponse hp (Reply notify_paid) (Some ''L1'') pos_waiting)) ''L1''
       = None
   \<and> clover_payment_id
        (lines (fst (handleCloverStatusResponse hp (Reply notify_paid) (Some ''L1'') pos_waiting)) ''L1'')
       = JStr ''p1''"
  by (simp add: sendPaymentRequest_def cloverPay_def callClover_def callClover_settle_def
      callClover_send_def cloverPayData_def cloverHandleResponse_def reply_pending_def
      waitForPaymentConfirmation_def setPaymentStatus_def pos0_def
      handleCloverStatusResponse_def handleSuccessResponse_def notify_paid_def js_or_def
      opt_jget_def resolver_def pos_waiting_fields line0_def Let_def)

end
